theory Spec2Isabelle
  imports Complex_Main "HOL-Library.Sublist" "HOL-Library.Word"
begin

section \<open>JavaScript strings\<close>

text \<open>
  A JavaScript string is a sequence of UTF-16 code units: a list of 16-bit words. Text
  that is written in the source is ASCII and enters the model through \<open>js\<close>. A number that
  the component only stores and forwards (the temperature) is the real number its decimal
  literal denotes; the token limit is an integer. \<open>undefined\<close> and \<open>null\<close> are \<open>None\<close>.
\<close>

type_synonym code_unit = "16 word"

type_synonym jsstring = "code_unit list"

definition js :: "string \<Rightarrow> jsstring" where
  \<comment> \<open>a string literal of the source\<close>
  "js s = map of_char s"

definition isWhiteSpace :: "code_unit \<Rightarrow> bool" where
  \<comment> \<open>WhiteSpace and LineTerminator of ECMAScript: TAB, LF, VT, FF, CR, SP, NBSP, the other
      space separators (U+1680, U+2000..U+200A, U+202F, U+205F, U+3000), LS, PS and U+FEFF\<close>
  "isWhiteSpace c =
     (c \<in> {0x0009, 0x000A, 0x000B, 0x000C, 0x000D, 0x0020, 0x00A0, 0x1680, 0x2028, 0x2029,
            0x202F, 0x205F, 0x3000, 0xFEFF}
      \<or> (0x2000 \<le> c \<and> c \<le> 0x200A))"

definition trim :: "jsstring \<Rightarrow> jsstring" where
  \<comment> \<open>\<open>String.prototype.trim\<close>: white space removed from both ends\<close>
  "trim s = rev (dropWhile isWhiteSpace (rev (dropWhile isWhiteSpace s)))"

fun includes_str :: "jsstring \<Rightarrow> jsstring \<Rightarrow> bool" where
  \<comment> \<open>\<open>s.includes(q)\<close>: \<open>q\<close> occurs in \<open>s\<close> at some position\<close>
  "includes_str [] q = (q = [])"
| "includes_str (c # cs) q = (prefix q (c # cs) \<or> includes_str cs q)"

definition truthy :: "jsstring \<Rightarrow> bool" where
  \<comment> \<open>a string in a boolean position: only the empty string is falsy\<close>
  "truthy s = (s \<noteq> [])"

definition or_undefined :: "jsstring \<Rightarrow> jsstring option" where
  \<comment> \<open>\<open>s || undefined\<close>\<close>
  "or_undefined s = (if truthy s then Some s else None)"

definition or_opt :: "jsstring option \<Rightarrow> jsstring option \<Rightarrow> jsstring option" where
  \<comment> \<open>\<open>a || b\<close> on values that are a string or \<open>undefined\<close>\<close>
  "or_opt a b = (case a of Some s \<Rightarrow> if truthy s then Some s else b | None \<Rightarrow> b)"

definition or_str :: "jsstring option \<Rightarrow> jsstring \<Rightarrow> jsstring" where
  \<comment> \<open>\<open>a || d\<close> where \<open>d\<close> is a string literal\<close>
  "or_str a d = (case a of Some s \<Rightarrow> if truthy s then s else d | None \<Rightarrow> d)"

subsection \<open>\<open>String.prototype.toLowerCase\<close>\<close>

text \<open>
  ECMAScript lowers a string in three steps: the code units are read as code points
  (a leading surrogate followed by a trailing one is one code point, any other unit is
  its own), the code points are lowered by the Unicode Default Case Conversion with the
  locale-insensitive mappings of the Unicode Character Database, and the result is
  written back as code units. The database is not part of the program and is a parameter:
  \<open>Lowercase_Mapping\<close> gives for a code point the code points of its unconditional
  lower-case mapping (SpecialCasing.txt where it has an entry, so U+0130 maps to two code
  points; else UnicodeData.txt; else the code point itself), \<open>Cased\<close> and \<open>Case_Ignorable\<close>
  are the properties of these names. The one conditional locale-insensitive mapping is
  written out: capital sigma becomes final sigma U+03C2 under the condition Final_Sigma
  (Unicode Standard, Table 3-17), that is when a cased letter comes before it, case-ignorable
  characters apart, and none comes after it, case-ignorable characters apart.
\<close>

record ucd =
  Lowercase_Mapping :: "nat \<Rightarrow> nat list"
  Cased :: "nat \<Rightarrow> bool"
  Case_Ignorable :: "nat \<Rightarrow> bool"

definition isLeadingSurrogate :: "code_unit \<Rightarrow> bool" where
  "isLeadingSurrogate c = (0xD800 \<le> c \<and> c \<le> 0xDBFF)"

definition isTrailingSurrogate :: "code_unit \<Rightarrow> bool" where
  "isTrailingSurrogate c = (0xDC00 \<le> c \<and> c \<le> 0xDFFF)"

fun StringToCodePoints :: "jsstring \<Rightarrow> nat list" where
  "StringToCodePoints [] = []"
| "StringToCodePoints [a] = [unat a]"
| "StringToCodePoints (a # b # cs) =
     (if isLeadingSurrogate a \<and> isTrailingSurrogate b
      then ((unat a - 0xD800) * 0x400 + (unat b - 0xDC00) + 0x10000) # StringToCodePoints cs
      else unat a # StringToCodePoints (b # cs))"

definition UTF16EncodeCodePoint :: "nat \<Rightarrow> jsstring" where
  "UTF16EncodeCodePoint cp =
     (if cp \<le> 0xFFFF then [of_nat cp]
      else [of_nat ((cp - 0x10000) div 0x400 + 0xD800),
            of_nat ((cp - 0x10000) mod 0x400 + 0xDC00)])"

definition CodePointsToString :: "nat list \<Rightarrow> jsstring" where
  "CodePointsToString cps = concat (map UTF16EncodeCodePoint cps)"

fun after_cased :: "ucd \<Rightarrow> nat list \<Rightarrow> bool" where
  \<comment> \<open>the code points, nearest first, are some case-ignorable ones and then a cased one\<close>
  "after_cased U [] = False"
| "after_cased U (c # cs) = (Cased U c \<or> (Case_Ignorable U c \<and> after_cased U cs))"

definition Final_Sigma :: "ucd \<Rightarrow> nat list \<Rightarrow> nat list \<Rightarrow> bool" where
  \<comment> \<open>\<open>before\<close> holds the code points in front, nearest first; \<open>after\<close> those behind\<close>
  "Final_Sigma U before after = (after_cased U before \<and> \<not> after_cased U after)"

fun toLowercase :: "ucd \<Rightarrow> nat list \<Rightarrow> nat list \<Rightarrow> nat list" where
  \<comment> \<open>the code points still to lower, with those already passed, nearest first\<close>
  "toLowercase U before [] = []"
| "toLowercase U before (c # after) =
     (if c = 0x03A3 \<and> Final_Sigma U before after then [0x03C2] else Lowercase_Mapping U c)
     @ toLowercase U (c # before) after"

definition toLowerCase :: "ucd \<Rightarrow> jsstring \<Rightarrow> jsstring" where
  "toLowerCase U s = CodePointsToString (toLowercase U [] (StringToCodePoints s))"

section \<open>Data model (services/promptService.ts, services/templateService.ts)\<close>

record Template =
  id_template :: jsstring
  name :: jsstring
  category :: jsstring
  description :: jsstring
  system_prompt_prefix :: jsstring

record EnhancePromptRequest =
  prompt_text :: jsstring
  template_id :: "jsstring option"
  temperature :: "real option"
  max_tokens :: "int option"
  custom_system_prompt :: "jsstring option"

record Persona =
  role :: jsstring
  expertise :: jsstring
  perspective :: jsstring

record Task =
  objective :: jsstring
  deliverable :: jsstring
  constraints :: "jsstring list"

record Context =
  technical_background :: jsstring
  key_considerations :: "jsstring list"
  audience :: jsstring

record Format =
  output_style :: jsstring
  structure_format :: "jsstring list"
  tone :: jsstring

record Enhanced =
  id_enhanced :: int
  persona :: Persona
  task :: Task
  context_enhanced :: Context
  format :: Format
  consolidated_prompt :: jsstring
  improvement_summary :: jsstring
  model_used :: jsstring
  tokens_used :: int

record EnhancedPromptResponse =
  id_response :: int
  original_text :: jsstring
  enhanced :: Enhanced
  created_at :: jsstring

text \<open>
  What the promise of \<open>enhancePrompt\<close> is rejected with: the error object of the HTTP
  client. \<open>response\<close> is absent when no response arrived, \<open>data\<close> when the response had no
  body, \<open>error\<close> when the body carries no such field. The field and the client's
  \<open>message\<close> are strings, as the \<open>error\<close> state that receives them is declared.
\<close>

record ErrorData =
  error_data :: "jsstring option"

record ErrorResponse =
  data :: "ErrorData option"

record AxiosError =
  response :: "ErrorResponse option"
  message :: "jsstring option"

text \<open>
  The body of the POST: the request object serialised as JSON. A property whose value is
  \<open>undefined\<close> is left out; the others keep the order of the object literal.
\<close>

datatype json = JString jsstring | JNumber real

definition json_body :: "EnhancePromptRequest \<Rightarrow> (string \<times> json) list" where
  "json_body r =
     [(''prompt_text'', JString (prompt_text r))]
     @ (case template_id r of None \<Rightarrow> [] | Some t \<Rightarrow> [(''template_id'', JString t)])
     @ (case temperature r of None \<Rightarrow> [] | Some x \<Rightarrow> [(''temperature'', JNumber x)])
     @ (case max_tokens r of None \<Rightarrow> [] | Some n \<Rightarrow> [(''max_tokens'', JNumber (of_int n))])
     @ (case custom_system_prompt r of None \<Rightarrow> []
        | Some p \<Rightarrow> [(''custom_system_prompt'', JString p)])"

section \<open>The component's state (App.tsx, the \<open>useState\<close> hooks)\<close>

record App =
  inputPrompt :: jsstring
  loading :: bool
  result :: "EnhancedPromptResponse option"
  error :: jsstring
  templates :: "Template list"
  showAdvanced :: bool
  showTemplates :: bool
  searchQuery :: jsstring
  selectedTemplate :: "Template option"
  temperatureSetting :: real
  maxTokens :: int
  customSystemPrompt :: jsstring

definition initialApp :: App where
  "initialApp =
     \<lparr>inputPrompt = [], loading = False, result = None, error = [], templates = [],
      showAdvanced = False, showTemplates = True, searchQuery = [], selectedTemplate = None,
      temperatureSetting = 0.3, maxTokens = 2048, customSystemPrompt = []\<rparr>"

section \<open>Derived values and what is rendered\<close>

definition filteredTemplates :: "ucd \<Rightarrow> App \<Rightarrow> Template list" where
  \<comment> \<open>\<open>U\<close> is the character database that \<open>toLowerCase\<close> consults\<close>
  "filteredTemplates U s =
     filter (\<lambda>t. includes_str (toLowerCase U (name t)) (toLowerCase U (searchQuery s)) \<or>
                 includes_str (toLowerCase U (category t)) (toLowerCase U (searchQuery s)))
       (templates s)"

datatype view = InputView | ResultsView

definition view :: "App \<Rightarrow> view" where
  \<comment> \<open>\<open>!result ? (input view) : (results view)\<close>\<close>
  "view s = (case result s of None \<Rightarrow> InputView | Some _ \<Rightarrow> ResultsView)"

definition renderedConsolidatedPrompt :: "App \<Rightarrow> jsstring option" where
  \<comment> \<open>the paragraph showing \<open>result.enhanced.consolidated_prompt\<close>, in the results view only\<close>
  "renderedConsolidatedPrompt s =
     (case result s of None \<Rightarrow> None | Some r \<Rightarrow> Some (consolidated_prompt (enhanced r)))"

definition renderedError :: "App \<Rightarrow> jsstring option" where
  \<comment> \<open>\<open>{error && (<div>{error}</div>)}\<close>, in the input view only\<close>
  "renderedError s = (if view s = InputView \<and> truthy (error s) then Some (error s) else None)"

definition highlighted :: "App \<Rightarrow> Template \<Rightarrow> bool" where
  \<comment> \<open>\<open>selectedTemplate?.id === template.id\<close>: the list entry drawn as the active one\<close>
  "highlighted s template = (map_option id_template (selectedTemplate s) = Some (id_template template))"

definition enhanceDisabled :: "App \<Rightarrow> bool" where
  \<comment> \<open>\<open>disabled={!inputPrompt.trim() || loading}\<close>\<close>
  "enhanceDisabled s = (\<not> truthy (trim (inputPrompt s)) \<or> loading s)"

text \<open>
  The states of the specification, read off what is rendered: the results view when a
  result is held, else the input view, with the spinner while \<open>loading\<close>.
\<close>

datatype phase = Editing | Submitting | ResultDisplayed

definition phase :: "App \<Rightarrow> phase" where
  "phase s = (if view s = ResultsView then ResultDisplayed
              else if loading s then Submitting else Editing)"

section \<open>The handlers\<close>

type_synonym http_post = "string \<times> (string \<times> json) list"

type_synonym outcome = "AxiosError + EnhancedPromptResponse"

definition enhancePrompt_post :: "EnhancePromptRequest \<Rightarrow> http_post" where
  \<comment> \<open>\<open>apiClient.post('/prompts/enhance/', request)\<close>: the path and the serialised body\<close>
  "enhancePrompt_post request = (''/prompts/enhance/'', json_body request)"

definition enhanceRequest :: "App \<Rightarrow> EnhancePromptRequest" where
  \<comment> \<open>the object literal handed to \<open>enhancePrompt\<close>\<close>
  "enhanceRequest s =
     \<lparr>prompt_text = inputPrompt s,
      template_id = map_option id_template (selectedTemplate s),
      temperature = Some (temperatureSetting s),
      max_tokens = Some (maxTokens s),
      custom_system_prompt = or_undefined (customSystemPrompt s)\<rparr>"

definition handleEnhance_begin :: "App \<Rightarrow> App \<times> EnhancePromptRequest option" where
  \<comment> \<open>\<open>handleEnhance\<close> up to the \<open>await\<close>: the guard, the two setters, the call\<close>
  "handleEnhance_begin s =
     (if \<not> truthy (trim (inputPrompt s)) then (s, None)
      else (s\<lparr>loading := True, error := []\<rparr>, Some (enhanceRequest s)))"

definition serverError :: "AxiosError \<Rightarrow> jsstring option" where
  \<comment> \<open>\<open>err.response?.data?.error\<close>\<close>
  "serverError err = Option.bind (response err) (\<lambda>r. Option.bind (data r) error_data)"

definition errorMessage :: "AxiosError \<Rightarrow> jsstring" where
  \<comment> \<open>\<open>err.response?.data?.error || err.message || 'Failed to enhance prompt'\<close>\<close>
  "errorMessage err =
     or_str (or_opt (serverError err) (message err)) (js ''Failed to enhance prompt'')"

definition handleEnhance_settle :: "outcome \<Rightarrow> App \<Rightarrow> App" where
  \<comment> \<open>\<open>handleEnhance\<close> after the \<open>await\<close>: \<open>setResult\<close> or the \<open>catch\<close> block, then \<open>finally\<close>\<close>
  "handleEnhance_settle out s =
     (case out of
        Inr resp \<Rightarrow> (s\<lparr>result := Some resp\<rparr>)\<lparr>loading := False\<rparr>
      | Inl err \<Rightarrow> (s\<lparr>error := errorMessage err\<rparr>)\<lparr>loading := False\<rparr>)"

definition handleEnhance :: "(http_post \<Rightarrow> outcome) \<Rightarrow> App \<Rightarrow> App \<times> http_post list" where
  \<comment> \<open>one whole run against a backend \<open>net\<close>, with the requests it issued\<close>
  "handleEnhance net s =
     (case handleEnhance_begin s of
        (s1, None) \<Rightarrow> (s1, [])
      | (s1, Some request) \<Rightarrow>
          (handleEnhance_settle (net (enhancePrompt_post request)) s1,
           [enhancePrompt_post request]))"

definition applyTemplate :: "Template \<Rightarrow> App \<Rightarrow> App" where
  \<comment> \<open>the \<open>alert\<close> shows a dialog and touches no state\<close>
  "applyTemplate template s = s\<lparr>selectedTemplate := Some template, customSystemPrompt := []\<rparr>"

definition enhanceAnother :: "App \<Rightarrow> App" where
  \<comment> \<open>\<open>onClick\<close> of the button that closes the results view\<close>
  "enhanceAnother s = s\<lparr>result := None, inputPrompt := [], searchQuery := []\<rparr>"

section \<open>The component as an event system\<close>

text \<open>
  An event is what the browser can deliver to the component: a change or click of a
  control, which exists only while it is rendered and enabled, and the settling of a
  promise. \<open>in_flight\<close> holds the requests sent and not yet answered. The character
  database \<open>U\<close> decides which templates the list renders, and so which can be clicked.
\<close>

datatype event =
    ChangeInputPrompt jsstring
  | ClickEnhance
  | EnhanceSettled outcome
  | ToggleAdvanced
  | ChangeTemperature real
  | ChangeMaxTokens int
  | ChangeCustomSystemPrompt jsstring
  | ToggleTemplates
  | ChangeSearchQuery jsstring
  | ClickTemplate Template
  | TemplatesLoaded "Template list"
  | ClickSave
  | ClickEnhanceAnother

record world =
  app :: App
  in_flight :: "http_post list"

definition on_input :: "(App \<Rightarrow> bool) \<Rightarrow> (App \<Rightarrow> App) \<Rightarrow> world \<Rightarrow> world" where
  \<comment> \<open>a control of the input view, rendered under a further condition\<close>
  "on_input shown f w =
     (if view (app w) = InputView \<and> shown (app w) then w\<lparr>app := f (app w)\<rparr> else w)"

fun step :: "ucd \<Rightarrow> event \<Rightarrow> world \<Rightarrow> world" where
  "step U (ChangeInputPrompt v) w = on_input (\<lambda>_. True) (\<lambda>s. s\<lparr>inputPrompt := v\<rparr>) w"
| "step U ClickEnhance w =
     (if view (app w) = InputView \<and> \<not> enhanceDisabled (app w)
      then (case handleEnhance_begin (app w) of
              (s1, None) \<Rightarrow> w\<lparr>app := s1\<rparr>
            | (s1, Some request) \<Rightarrow>
                \<lparr>app = s1, in_flight = in_flight w @ [enhancePrompt_post request]\<rparr>)
      else w)"
| "step U (EnhanceSettled out) w =
     (case in_flight w of
        [] \<Rightarrow> w
      | p # ps \<Rightarrow> \<lparr>app = handleEnhance_settle out (app w), in_flight = ps\<rparr>)"
| "step U ToggleAdvanced w = on_input (\<lambda>_. True) (\<lambda>s. s\<lparr>showAdvanced := \<not> showAdvanced s\<rparr>) w"
| "step U (ChangeTemperature v) w = on_input showAdvanced (\<lambda>s. s\<lparr>temperatureSetting := v\<rparr>) w"
| "step U (ChangeMaxTokens v) w = on_input showAdvanced (\<lambda>s. s\<lparr>maxTokens := v\<rparr>) w"
| "step U (ChangeCustomSystemPrompt v) w =
     on_input showAdvanced (\<lambda>s. s\<lparr>customSystemPrompt := v\<rparr>) w"
| "step U ToggleTemplates w = on_input (\<lambda>_. True) (\<lambda>s. s\<lparr>showTemplates := \<not> showTemplates s\<rparr>) w"
| "step U (ChangeSearchQuery v) w = on_input showTemplates (\<lambda>s. s\<lparr>searchQuery := v\<rparr>) w"
| "step U (ClickTemplate t) w =
     on_input (\<lambda>s. showTemplates s \<and> t \<in> set (filteredTemplates U s)) (applyTemplate t) w"
| "step U (TemplatesLoaded ts) w = w\<lparr>app := (app w)\<lparr>templates := ts\<rparr>\<rparr>"
| "step U ClickSave w = w"
| "step U ClickEnhanceAnother w =
     (if view (app w) = ResultsView then w\<lparr>app := enhanceAnother (app w)\<rparr> else w)"

definition initialWorld :: world where
  "initialWorld = \<lparr>app = initialApp, in_flight = []\<rparr>"

inductive reachable :: "ucd \<Rightarrow> world \<Rightarrow> bool" for U :: ucd where
  reachable_init: "reachable U initialWorld"
| reachable_step: "reachable U w \<Longrightarrow> reachable U (step U e w)"

section \<open>Notions of the specification\<close>


text \<open>
  The error message chosen by presence alone: the server's error field when the payload
  has one, else the client's message when there is one, else the fixed text.
\<close>

definition errorMessage_by_presence :: "AxiosError \<Rightarrow> jsstring" where
  "errorMessage_by_presence err =
     (case serverError err of
        Some e \<Rightarrow> e
      | None \<Rightarrow> (case message err of Some m \<Rightarrow> m | None \<Rightarrow> js ''Failed to enhance prompt''))"

definition present_nonempty :: "jsstring option \<Rightarrow> jsstring option" where
  \<comment> \<open>a value that is there and is not the empty string\<close>
  "present_nonempty a = (case a of Some v \<Rightarrow> if v = [] then None else Some v | None \<Rightarrow> None)"

text \<open>
  What holds of every world the component can be in: \<open>loading\<close> says whether a request is
  out, at most one is, and none is while a result is shown.
\<close>

definition consistent :: "world \<Rightarrow> bool" where
  "consistent w =
     ((loading (app w) \<longleftrightarrow> in_flight w \<noteq> []) \<and> length (in_flight w) \<le> 1 \<and>
      (in_flight w \<noteq> [] \<longrightarrow> result (app w) = None))"

section \<open>Sample values\<close>

definition ucd_excerpt :: ucd where
  \<comment> \<open>the entries of the Unicode Character Database for the letters A..Z, a..z and the Greek
      letters U+0391..U+03A9, U+03B1..U+03C9, for U+0130, and for the case-ignorable
      apostrophe, full stop, colon and combining dot above U+0307; the samples below use
      no other letter\<close>
  "ucd_excerpt =
     \<lparr>Lowercase_Mapping =
        (\<lambda>cp. if (0x41 \<le> cp \<and> cp \<le> 0x5A) \<or> (0x391 \<le> cp \<and> cp \<le> 0x3A9 \<and> cp \<noteq> 0x3A2)
              then [cp + 32]
              else if cp = 0x130 then [0x69, 0x307] else [cp]),
      Cased =
        (\<lambda>cp. (0x41 \<le> cp \<and> cp \<le> 0x5A) \<or> (0x61 \<le> cp \<and> cp \<le> 0x7A) \<or>
              (0x391 \<le> cp \<and> cp \<le> 0x3A9 \<and> cp \<noteq> 0x3A2) \<or> (0x3B1 \<le> cp \<and> cp \<le> 0x3C9) \<or>
              cp = 0x130),
      Case_Ignorable = (\<lambda>cp. cp \<in> {0x27, 0x2E, 0x3A, 0x307})\<rparr>"

definition no_response :: AxiosError where
  \<comment> \<open>a request that got no answer: the client's network error\<close>
  "no_response = \<lparr>response = None, message = Some (js ''Network Error'')\<rparr>"

definition offline :: "http_post \<Rightarrow> outcome" where
  "offline p = Inl no_response"

definition empty_server_error :: AxiosError where
  \<comment> \<open>status 400 with the body \<open>{"error": ""}\<close>\<close>
  "empty_server_error =
     \<lparr>response = Some \<lparr>data = Some \<lparr>error_data = Some []\<rparr>\<rparr>,
      message = Some (js ''Request failed with status code 400'')\<rparr>"

definition quota_error :: AxiosError where
  \<comment> \<open>status 429 with the body \<open>{"error": "Quota exceeded"}\<close>\<close>
  "quota_error =
     \<lparr>response = Some \<lparr>data = Some \<lparr>error_data = Some (js ''Quota exceeded'')\<rparr>\<rparr>,
      message = Some (js ''Request failed with status code 429'')\<rparr>"

definition sample_response :: EnhancedPromptResponse where
  "sample_response =
     \<lparr>id_response = 7, original_text = js ''write code'',
      enhanced =
        \<lparr>id_enhanced = 7,
         persona =
           \<lparr>role = js ''Engineer'', expertise = js ''Python'', perspective = js ''Pragmatic''\<rparr>,
         task =
           \<lparr>objective = js ''Write a function'', deliverable = js ''Code'', constraints = []\<rparr>,
         context_enhanced =
           \<lparr>technical_background = js ''None'', key_considerations = [],
            audience = js ''Developers''\<rparr>,
         format =
           \<lparr>output_style = js ''Code block'', structure_format = [], tone = js ''Plain''\<rparr>,
         consolidated_prompt = js ''You are an engineer. Write a function.'',
         improvement_summary = js ''Added a persona'', model_used = js ''gemini'',
         tokens_used = 120\<rparr>,
      created_at = js ''2025-01-01''\<rparr>"

definition code_review :: Template where
  "code_review =
     \<lparr>id_template = js ''1'', name = js ''Code Review'', category = js ''Development'',
      description = [], system_prompt_prefix = []\<rparr>"

definition essay :: Template where
  "essay =
     \<lparr>id_template = js ''2'', name = js ''Essay'', category = js ''Writing'',
      description = [], system_prompt_prefix = []\<rparr>"


definition submitted :: world where
  \<comment> \<open>the user has typed "write code" and pressed the button\<close>
  "submitted =
     step ucd_excerpt ClickEnhance
       (step ucd_excerpt (ChangeInputPrompt (js ''write code'')) initialWorld)"

definition result_shown :: world where
  \<comment> \<open>the templates arrive, the user looks for "code", takes the first template, types
      "write code", presses the button, and the backend answers\<close>
  "result_shown =
     step ucd_excerpt (EnhanceSettled (Inr sample_response))
       (step ucd_excerpt ClickEnhance
         (step ucd_excerpt (ChangeInputPrompt (js ''write code''))
           (step ucd_excerpt (ClickTemplate code_review)
             (step ucd_excerpt (ChangeSearchQuery (js ''code''))
               (step ucd_excerpt (TemplatesLoaded [code_review, essay]) initialWorld)))))"

section \<open>Lemmas on the string built-ins\<close>

lemma all_dropWhile: "(\<forall>x\<in>set (dropWhile P s). P x) \<longleftrightarrow> (\<forall>x\<in>set s. P x)"
  by (induction s) auto

lemma trim_empty_iff: "trim s = [] \<longleftrightarrow> (\<forall>c\<in>set s. isWhiteSpace c)"
  by (simp add: trim_def all_dropWhile)

lemma trim_nonempty: "trim s \<noteq> [] \<Longrightarrow> s \<noteq> []"
  by (auto simp: trim_def)

lemma includes_str_sublist: "includes_str s q \<longleftrightarrow> sublist q s"
  by (induction s) (auto simp: sublist_Cons_right)

lemma includes_str_Nil: "includes_str s []"
  by (simp add: includes_str_sublist)


lemmas lower_eval =
  toLowerCase_def js_def ucd_excerpt_def CodePointsToString_def UTF16EncodeCodePoint_def
  isLeadingSurrogate_def isTrailingSurrogate_def Final_Sigma_def

lemma lower_write_code: "toLowerCase ucd_excerpt (js ''Write CODE'') = js ''write code''"
  by (simp add: lower_eval)



lemma lower_dotted_I: "toLowerCase ucd_excerpt [0x0130, 0x007A] = [0x0069, 0x0307, 0x007A]"
  by (simp add: lower_eval)

section \<open>Template search\<close>

text \<open>
  Whatever else the database holds, with the entries of the four Greek capitals the
  lower-case form of the query alpha, sigma does not occur in that of the name alpha,
  sigma, tau, upsilon.
\<close>

lemma sigma_query_not_in_name:
  assumes "Lowercase_Mapping U 0x0391 = [0x03B1]" and "Lowercase_Mapping U 0x03A3 = [0x03C3]"
    and "Lowercase_Mapping U 0x03A4 = [0x03C4]" and "Lowercase_Mapping U 0x03A5 = [0x03C5]"
    and "Cased U 0x0391" and "Cased U 0x03A4"
  shows "\<not> includes_str (toLowerCase U [0x0391, 0x03A3, 0x03A4, 0x03A5])
                          (toLowerCase U [0x0391, 0x03A3])"
  using assms
  by (simp add: toLowerCase_def CodePointsToString_def UTF16EncodeCodePoint_def
      isLeadingSurrogate_def isTrailingSurrogate_def Final_Sigma_def)




section \<open>Submitting a prompt\<close>

text \<open>
  C1. With the prompt text "write code", no template selected, an empty custom system
  prompt and the default temperature 0.3 and token limit 2048, the object handed to
  \<open>enhancePrompt\<close> has \<open>template_id\<close> and \<open>custom_system_prompt\<close> undefined, and the one
  request that is posted has exactly the body
  \<open>{prompt_text: "write code", temperature: 0.3, max_tokens: 2048}\<close>.
\<close>

theorem handleEnhance_write_code_body:
  assumes "inputPrompt s = js ''write code''" and "selectedTemplate s = None"
    and "customSystemPrompt s = []" and "temperatureSetting s = 0.3" and "maxTokens s = 2048"
  shows "snd (handleEnhance_begin s) =
           Some \<lparr>prompt_text = js ''write code'', template_id = None, temperature = Some 0.3,
                 max_tokens = Some 2048, custom_system_prompt = None\<rparr>
         \<and> snd (handleEnhance net s) =
           [(''/prompts/enhance/'',
             [(''prompt_text'', JString (js ''write code'')), (''temperature'', JNumber 0.3),
              (''max_tokens'', JNumber 2048)])]"
proof -
  have "truthy (trim (inputPrompt s))"
    using assms(1) by (simp add: truthy_def trim_def isWhiteSpace_def js_def)
  then show ?thesis
    using assms
    by (simp add: handleEnhance_def handleEnhance_begin_def enhanceRequest_def
        enhancePrompt_post_def json_body_def or_undefined_def truthy_def)
qed

theorem handleEnhance_write_code_body_witness:
  "inputPrompt (initialApp\<lparr>inputPrompt := js ''write code''\<rparr>) = js ''write code''
   \<and> selectedTemplate (initialApp\<lparr>inputPrompt := js ''write code''\<rparr>) = None
   \<and> customSystemPrompt (initialApp\<lparr>inputPrompt := js ''write code''\<rparr>) = []
   \<and> temperatureSetting (initialApp\<lparr>inputPrompt := js ''write code''\<rparr>) = 0.3
   \<and> maxTokens (initialApp\<lparr>inputPrompt := js ''write code''\<rparr>) = 2048
   \<and> snd (handleEnhance offline (initialApp\<lparr>inputPrompt := js ''write code''\<rparr>)) =
       [(''/prompts/enhance/'',
         [(''prompt_text'', JString (js ''write code'')), (''temperature'', JNumber 0.3),
          (''max_tokens'', JNumber 2048)])]"
  using handleEnhance_write_code_body
    [of "initialApp\<lparr>inputPrompt := js ''write code''\<rparr>" offline]
  by (simp add: initialApp_def)

text \<open>
  C2. When the prompt text is empty or holds only white space, a run of the handler posts
  nothing and leaves the state as it was, and a click on the button sends nothing either.
\<close>

theorem blank_prompt_no_request:
  assumes "\<forall>c\<in>set (inputPrompt s). isWhiteSpace c"
  shows "handleEnhance net s = (s, [])
         \<and> step U ClickEnhance \<lparr>app = s, in_flight = q\<rparr> = \<lparr>app = s, in_flight = q\<rparr>"
proof -
  have "trim (inputPrompt s) = []"
    using assms by (simp add: trim_empty_iff)
  then show ?thesis
    by (simp add: handleEnhance_def handleEnhance_begin_def enhanceDisabled_def truthy_def)
qed

theorem blank_prompt_no_request_witness:
  "inputPrompt (initialApp\<lparr>inputPrompt := [0x0020, 0x0009, 0x000A, 0x00A0, 0x2003, 0x3000, 0xFEFF]\<rparr>) =
     [0x0020, 0x0009, 0x000A, 0x00A0, 0x2003, 0x3000, 0xFEFF]
   \<and> isWhiteSpace 0x0020 \<and> isWhiteSpace 0x0009 \<and> isWhiteSpace 0x000A \<and> isWhiteSpace 0x00A0
   \<and> isWhiteSpace 0x2003 \<and> isWhiteSpace 0x3000 \<and> isWhiteSpace 0xFEFF
   \<and> snd (handleEnhance offline
            (initialApp\<lparr>inputPrompt := [0x0020, 0x0009, 0x000A, 0x00A0, 0x2003, 0x3000, 0xFEFF]\<rparr>)) = []"
  using blank_prompt_no_request
    [of "initialApp\<lparr>inputPrompt := [0x0020, 0x0009, 0x000A, 0x00A0, 0x2003, 0x3000, 0xFEFF]\<rparr>"
      offline]
  by (simp add: isWhiteSpace_def)

section \<open>Worlds the component can reach\<close>

lemma consistent_init: "consistent initialWorld"
  by (simp add: consistent_def initialWorld_def initialApp_def)

lemma on_input_consistent:
  assumes "\<And>s. loading (f s) = loading s" and "\<And>s. result (f s) = result s"
    and "consistent w"
  shows "consistent (on_input shown f w)"
  using assms by (simp add: consistent_def on_input_def)

lemma consistent_step:
  assumes "consistent w"
  shows "consistent (step U e w)"
proof (cases e)
  case ClickEnhance
  with assms show ?thesis
    by (auto simp: consistent_def enhanceDisabled_def handleEnhance_begin_def view_def
        split: option.splits)
next
  case (EnhanceSettled out)
  with assms show ?thesis
    by (cases "in_flight w"; cases out) (auto simp: consistent_def handleEnhance_settle_def)
next
  case ClickEnhanceAnother
  with assms show ?thesis
    by (auto simp: consistent_def enhanceAnother_def view_def split: option.splits)
next
  case (TemplatesLoaded ts)
  with assms show ?thesis by (simp add: consistent_def)
next
  case ClickSave
  with assms show ?thesis by simp
qed (use assms in \<open>simp_all add: on_input_consistent applyTemplate_def\<close>)

lemma reachable_consistent: "reachable U w \<Longrightarrow> consistent w"
  by (induction rule: reachable.induct) (simp_all add: consistent_init consistent_step)

lemma dispatch_only_by_click:
  assumes "length (in_flight w) < length (in_flight (step U e w))"
  shows "e = ClickEnhance \<and> view (app w) = InputView \<and> \<not> enhanceDisabled (app w)"
  using assms
  by (cases e) (auto simp: on_input_def split: if_splits list.splits)

lemma reachable_submitted: "reachable ucd_excerpt submitted"
  unfolding submitted_def by (intro reachable.intros)

lemma app_submitted:
  "app submitted = initialApp\<lparr>inputPrompt := js ''write code'', loading := True\<rparr>"
  by (simp add: submitted_def initialWorld_def initialApp_def on_input_def view_def
      enhanceDisabled_def truthy_def trim_def isWhiteSpace_def handleEnhance_begin_def js_def)

lemma in_flight_submitted:
  "in_flight submitted =
     [(''/prompts/enhance/'',
       [(''prompt_text'', JString (js ''write code'')), (''temperature'', JNumber 0.3),
        (''max_tokens'', JNumber 2048)])]"
  by (simp add: submitted_def initialWorld_def initialApp_def on_input_def view_def
      enhanceDisabled_def truthy_def trim_def isWhiteSpace_def handleEnhance_begin_def
      enhanceRequest_def enhancePrompt_post_def json_body_def or_undefined_def js_def)

text \<open>
  C9. In every reachable U world at most one enhancement request is in flight, and an event
  sends one only if it is a click on the button in the Editing state, with a prompt text
  that is not empty (nor blank) and nothing in flight; the component is then Submitting.
\<close>

theorem one_request_in_flight:
  assumes "reachable U w"
  shows "length (in_flight w) \<le> 1
         \<and> (length (in_flight w) < length (in_flight (step U e w)) \<longrightarrow>
              e = ClickEnhance \<and> phase (app w) = Editing \<and> inputPrompt (app w) \<noteq> []
              \<and> trim (inputPrompt (app w)) \<noteq> [] \<and> in_flight w = []
              \<and> phase (app (step U e w)) = Submitting)"
proof -
  from assms have c: "consistent w"
    by (rule reachable_consistent)
  then have "length (in_flight w) \<le> 1"
    by (simp add: consistent_def)
  moreover
  { assume sent: "length (in_flight w) < length (in_flight (step U e w))"
    then have e: "e = ClickEnhance" and v: "view (app w) = InputView"
      and en: "\<not> enhanceDisabled (app w)"
      using dispatch_only_by_click by blast+
    from en have t: "trim (inputPrompt (app w)) \<noteq> []" and l: "\<not> loading (app w)"
      by (simp_all add: enhanceDisabled_def truthy_def)
    from l c have q: "in_flight w = []"
      by (simp add: consistent_def)
    from v l have "phase (app w) = Editing"
      by (simp add: phase_def)
    moreover from v en t have "phase (app (step U e w)) = Submitting"
      unfolding e
      by (simp add: phase_def handleEnhance_begin_def truthy_def view_def)
    ultimately have "e = ClickEnhance \<and> phase (app w) = Editing \<and> inputPrompt (app w) \<noteq> []
              \<and> trim (inputPrompt (app w)) \<noteq> [] \<and> in_flight w = []
              \<and> phase (app (step U e w)) = Submitting"
      using e t q trim_nonempty by blast }
  ultimately show ?thesis
    by blast
qed

theorem one_request_in_flight_witness:
  "reachable ucd_excerpt submitted \<and> length (in_flight submitted) = 1
   \<and> reachable ucd_excerpt (step ucd_excerpt (ChangeInputPrompt (js ''write code'')) initialWorld)
   \<and> length (in_flight (step ucd_excerpt (ChangeInputPrompt (js ''write code'')) initialWorld))
       < length (in_flight (step ucd_excerpt ClickEnhance (step ucd_excerpt (ChangeInputPrompt (js ''write code'')) initialWorld)))
   \<and> phase (app (step ucd_excerpt (ChangeInputPrompt (js ''write code'')) initialWorld)) = Editing
   \<and> phase (app submitted) = Submitting
   \<and> in_flight (step ucd_excerpt ClickEnhance submitted) = in_flight submitted"
proof -
  have r: "reachable ucd_excerpt (step ucd_excerpt (ChangeInputPrompt (js ''write code'')) initialWorld)"
    by (intro reachable.intros)
  have n: "in_flight (step ucd_excerpt (ChangeInputPrompt (js ''write code'')) initialWorld) = []"
    by (simp add: initialWorld_def initialApp_def on_input_def view_def)
  have l: "length (in_flight (step ucd_excerpt (ChangeInputPrompt (js ''write code'')) initialWorld))
       < length (in_flight (step ucd_excerpt ClickEnhance (step ucd_excerpt (ChangeInputPrompt (js ''write code'')) initialWorld)))"
    using in_flight_submitted n by (simp add: submitted_def)
  have again: "step ucd_excerpt ClickEnhance submitted = submitted"
    by (simp add: app_submitted enhanceDisabled_def)
  show ?thesis
    using one_request_in_flight [OF r, of ClickEnhance] one_request_in_flight [OF reachable_submitted, of ClickEnhance]
      r l reachable_submitted in_flight_submitted again
    by (simp add: submitted_def)
qed

section \<open>The answer to a request\<close>

lemma errorMessage_nonempty: "errorMessage err \<noteq> []"
  by (simp add: errorMessage_def or_str_def or_opt_def truthy_def js_def split: option.splits)

lemma settle_step:
  "in_flight w \<noteq> [] \<Longrightarrow>
   app (step U (EnhanceSettled out) w) = handleEnhance_settle out (app w)"
  by (cases "in_flight w") simp_all

lemma settle_step_in_flight:
  "in_flight (step U (EnhanceSettled out) w) = tl (in_flight w)"
  by (cases "in_flight w") simp_all

text \<open>
  C3. When the request in flight is answered with success, the component goes from the
  input view (Submitting) to the results view (ResultDisplayed), and the consolidated
  prompt it renders is the \<open>consolidated_prompt\<close> field of the response, unchanged.
\<close>

theorem success_shows_result:
  assumes "reachable U w" and "in_flight w \<noteq> []"
  shows "view (app w) = InputView \<and> phase (app w) = Submitting
         \<and> view (app (step U (EnhanceSettled (Inr resp)) w)) = ResultsView
         \<and> phase (app (step U (EnhanceSettled (Inr resp)) w)) = ResultDisplayed
         \<and> renderedConsolidatedPrompt (app (step U (EnhanceSettled (Inr resp)) w)) =
             Some (consolidated_prompt (enhanced resp))"
proof -
  from assms have before: "result (app w) = None" "loading (app w)"
    using reachable_consistent [of U w] by (simp_all add: consistent_def)
  have after: "app (step U (EnhanceSettled (Inr resp)) w) =
      (app w)\<lparr>result := Some resp, loading := False\<rparr>"
    using assms(2) by (simp add: settle_step handleEnhance_settle_def del: step.simps)
  show ?thesis
    unfolding after using before
    by (simp add: view_def phase_def renderedConsolidatedPrompt_def)
qed

theorem success_shows_result_witness:
  "reachable ucd_excerpt submitted \<and> in_flight submitted \<noteq> []
   \<and> view (app submitted) = InputView
   \<and> view (app (step ucd_excerpt (EnhanceSettled (Inr sample_response)) submitted)) = ResultsView
   \<and> renderedConsolidatedPrompt (app (step ucd_excerpt (EnhanceSettled (Inr sample_response)) submitted)) =
       Some (js ''You are an engineer. Write a function.'')"
proof -
  have q: "in_flight submitted \<noteq> []"
    by (simp add: in_flight_submitted)
  show ?thesis
    using success_shows_result [OF reachable_submitted q, of sample_response]
      reachable_submitted q
    by (simp add: sample_response_def)
qed

text \<open>
  C4. When the request in flight fails, the component is back in the Editing state (input
  view, not loading) and shows an error message that is not empty, and the prompt text is
  what it was; a whole run of the handler never changes the prompt text.
\<close>

theorem failure_returns_to_editing:
  assumes "reachable U w" and "in_flight w \<noteq> []"
  shows "phase (app (step U (EnhanceSettled (Inl err)) w)) = Editing
         \<and> error (app (step U (EnhanceSettled (Inl err)) w)) \<noteq> []
         \<and> renderedError (app (step U (EnhanceSettled (Inl err)) w)) =
             Some (error (app (step U (EnhanceSettled (Inl err)) w)))
         \<and> inputPrompt (app (step U (EnhanceSettled (Inl err)) w)) = inputPrompt (app w)
         \<and> inputPrompt (fst (handleEnhance net (app w))) = inputPrompt (app w)"
proof -
  from assms have before: "result (app w) = None"
    using reachable_consistent [of U w] by (simp add: consistent_def)
  have after: "app (step U (EnhanceSettled (Inl err)) w) =
      (app w)\<lparr>error := errorMessage err, loading := False\<rparr>"
    using assms(2) by (simp add: settle_step handleEnhance_settle_def del: step.simps)
  have run: "inputPrompt (fst (handleEnhance net (app w))) = inputPrompt (app w)"
    by (simp add: handleEnhance_def handleEnhance_begin_def handleEnhance_settle_def
        split: sum.splits)
  show ?thesis
    unfolding after using before run
    by (simp add: view_def phase_def renderedError_def truthy_def errorMessage_nonempty)
qed

theorem failure_returns_to_editing_witness:
  "reachable ucd_excerpt submitted \<and> in_flight submitted \<noteq> []
   \<and> phase (app (step ucd_excerpt (EnhanceSettled (Inl no_response)) submitted)) = Editing
   \<and> renderedError (app (step ucd_excerpt (EnhanceSettled (Inl no_response)) submitted)) =
       Some (js ''Network Error'')
   \<and> inputPrompt (app (step ucd_excerpt (EnhanceSettled (Inl no_response)) submitted)) = js ''write code''"
proof -
  have q: "in_flight submitted \<noteq> []"
    by (simp add: in_flight_submitted)
  have e: "error (app (step ucd_excerpt (EnhanceSettled (Inl no_response)) submitted)) = js ''Network Error''"
    using q
    by (simp add: settle_step handleEnhance_settle_def errorMessage_def serverError_def
        no_response_def or_str_def or_opt_def truthy_def js_def del: step.simps)
  show ?thesis
    using failure_returns_to_editing [OF reachable_submitted q, of no_response offline]
      reachable_submitted q e
    by (simp add: app_submitted)
qed

text \<open>
  C10. A run of the handler that posts a request has cleared the error message and set
  \<open>loading\<close> before the request goes out, and ends with \<open>loading\<close> false whatever the
  answer is, so the component is not left Submitting; the code after the \<open>await\<close> sets
  \<open>loading\<close> false from any state and for any outcome.
\<close>

theorem handleEnhance_resets_loading:
  assumes "snd (handleEnhance net s) \<noteq> []"
  shows "snd (handleEnhance_begin s) = Some (enhanceRequest s)
         \<and> error (fst (handleEnhance_begin s)) = []
         \<and> loading (fst (handleEnhance_begin s))
         \<and> snd (handleEnhance net s) = [enhancePrompt_post (enhanceRequest s)]
         \<and> \<not> loading (fst (handleEnhance net s))
         \<and> phase (fst (handleEnhance net s)) \<noteq> Submitting
         \<and> \<not> loading (handleEnhance_settle out s')"
proof -
  have "truthy (trim (inputPrompt s))"
    using assms by (auto simp: handleEnhance_def handleEnhance_begin_def split: if_splits)
  then show ?thesis
    by (simp add: handleEnhance_def handleEnhance_begin_def handleEnhance_settle_def phase_def
        split: sum.splits)
qed

theorem handleEnhance_resets_loading_witness:
  "snd (handleEnhance offline (initialApp\<lparr>inputPrompt := js ''write code'', error := js ''Network Error''\<rparr>)) \<noteq> []
   \<and> error (fst (handleEnhance_begin (initialApp\<lparr>inputPrompt := js ''write code'', error := js ''Network Error''\<rparr>))) = []
   \<and> \<not> loading (fst (handleEnhance offline (initialApp\<lparr>inputPrompt := js ''write code'', error := js ''Network Error''\<rparr>)))"
proof -
  have "snd (handleEnhance offline (initialApp\<lparr>inputPrompt := js ''write code'', error := js ''Network Error''\<rparr>)) \<noteq> []"
    by (simp add: handleEnhance_def handleEnhance_begin_def truthy_def trim_def isWhiteSpace_def
        js_def)
  then show ?thesis
    using handleEnhance_resets_loading
      [of offline "initialApp\<lparr>inputPrompt := js ''write code'', error := js ''Network Error''\<rparr>"]
    by simp
qed

section \<open>The error message\<close>

text \<open>
  C5, as stated: the message is the server's error field whenever the payload has one.
  It fails for a payload whose error field is the empty string: the field is present,
  and the message shown is the client's.
\<close>

theorem errorMessage_by_presence_counterexample:
  "serverError empty_server_error = Some []
   \<and> errorMessage_by_presence empty_server_error = []
   \<and> errorMessage empty_server_error = js ''Request failed with status code 400''
   \<and> error (handleEnhance_settle (Inl empty_server_error) initialApp)
       \<noteq> errorMessage_by_presence empty_server_error"
  by (simp add: empty_server_error_def serverError_def errorMessage_by_presence_def
      errorMessage_def or_str_def or_opt_def truthy_def handleEnhance_settle_def js_def)

text \<open>
  C5, amended. After a failure the message shown is the server's error field when the
  payload has one that is not empty, else the client's message when there is one that is
  not empty, else "Failed to enhance prompt".
\<close>

theorem errorMessage_priority:
  "error (handleEnhance_settle (Inl err) s) =
     (case present_nonempty (serverError err) of
        Some e \<Rightarrow> e
      | None \<Rightarrow>
          (case present_nonempty (message err) of
             Some m \<Rightarrow> m
           | None \<Rightarrow> (js ''Failed to enhance prompt'')))"
  by (simp add: handleEnhance_settle_def errorMessage_def or_str_def or_opt_def truthy_def
      present_nonempty_def split: option.splits)

theorem errorMessage_priority_witness:
  "error (handleEnhance_settle (Inl quota_error) initialApp) = js ''Quota exceeded''
   \<and> error (handleEnhance_settle (Inl empty_server_error) initialApp) =
       (js ''Request failed with status code 400'')
   \<and> error (handleEnhance_settle (Inl \<lparr>response = None, message = None\<rparr>) initialApp) =
       (js ''Failed to enhance prompt'')"
  using errorMessage_priority [of quota_error initialApp]
    errorMessage_priority [of empty_server_error initialApp]
    errorMessage_priority [of "\<lparr>response = None, message = None\<rparr>" initialApp]
  by (simp add: quota_error_def empty_server_error_def serverError_def present_nonempty_def
      js_def)

section \<open>Templates and starting over\<close>

text \<open>
  C7. Applying a template makes it the selected template, whatever was selected before
  (a second application replaces the first, and the entries drawn as active are those
  with the id of the template applied last), empties the custom system prompt, and
  leaves the prompt text as it was.
\<close>

theorem applyTemplate_selects:
  "selectedTemplate (applyTemplate t s) = Some t
   \<and> customSystemPrompt (applyTemplate t s) = []
   \<and> inputPrompt (applyTemplate t s) = inputPrompt s
   \<and> selectedTemplate (applyTemplate t' (applyTemplate t s)) = Some t'
   \<and> highlighted (applyTemplate t' (applyTemplate t s)) u = (id_template u = id_template t')
   \<and> template_id (enhanceRequest (applyTemplate t s)) = Some (id_template t)
   \<and> custom_system_prompt (enhanceRequest (applyTemplate t s)) = None"
  by (auto simp: applyTemplate_def highlighted_def enhanceRequest_def or_undefined_def truthy_def)

theorem applyTemplate_selects_witness:
  "selectedTemplate (applyTemplate essay (applyTemplate code_review
      (initialApp\<lparr>inputPrompt := js ''write code'', customSystemPrompt := js ''Be brief''\<rparr>))) = Some essay
   \<and> customSystemPrompt (applyTemplate code_review
      (initialApp\<lparr>inputPrompt := js ''write code'', customSystemPrompt := js ''Be brief''\<rparr>)) = []
   \<and> inputPrompt (applyTemplate code_review
      (initialApp\<lparr>inputPrompt := js ''write code'', customSystemPrompt := js ''Be brief''\<rparr>)) = js ''write code''
   \<and> \<not> highlighted (applyTemplate essay (applyTemplate code_review
      (initialApp\<lparr>inputPrompt := js ''write code'', customSystemPrompt := js ''Be brief''\<rparr>))) code_review"
  using applyTemplate_selects
    [of code_review "initialApp\<lparr>inputPrompt := js ''write code'', customSystemPrompt := js ''Be brief''\<rparr>"
      essay code_review]
  by (simp add: code_review_def essay_def js_def)

lemma app_result_shown:
  "app result_shown =
     initialApp\<lparr>inputPrompt := js ''write code'', templates := [code_review, essay],
       searchQuery := js ''code'', selectedTemplate := Some code_review,
       result := Some sample_response\<rparr>"
  by (simp add: result_shown_def initialWorld_def initialApp_def on_input_def view_def
      enhanceDisabled_def truthy_def trim_def isWhiteSpace_def handleEnhance_begin_def
      handleEnhance_settle_def applyTemplate_def filteredTemplates_def code_review_def
      essay_def lower_eval)

lemma reachable_result_shown: "reachable ucd_excerpt result_shown"
  unfolding result_shown_def by (intro reachable.intros)

text \<open>
  C8. In a reachable U world that shows a result, "enhance another" drops the result,
  empties the prompt text and the search query, and brings the component back to the
  Editing state (input view, nothing loading); the selected template stays selected.
\<close>

theorem enhanceAnother_clears:
  assumes "reachable U w" and "view (app w) = ResultsView"
  shows "result (app (step U ClickEnhanceAnother w)) = None
         \<and> inputPrompt (app (step U ClickEnhanceAnother w)) = []
         \<and> searchQuery (app (step U ClickEnhanceAnother w)) = []
         \<and> view (app (step U ClickEnhanceAnother w)) = InputView
         \<and> phase (app (step U ClickEnhanceAnother w)) = Editing
         \<and> selectedTemplate (app (step U ClickEnhanceAnother w)) = selectedTemplate (app w)"
proof -
  from assms(2) have "result (app w) \<noteq> None"
    by (auto simp: view_def split: option.splits)
  with assms(1) have "\<not> loading (app w)"
    using reachable_consistent [of U w] by (auto simp: consistent_def)
  with assms(2) show ?thesis
    by (simp add: enhanceAnother_def phase_def) (simp add: view_def)
qed

theorem enhanceAnother_clears_witness:
  "reachable ucd_excerpt result_shown \<and> view (app result_shown) = ResultsView
   \<and> searchQuery (app result_shown) = js ''code''
   \<and> inputPrompt (app result_shown) = js ''write code''
   \<and> inputPrompt (app (step ucd_excerpt ClickEnhanceAnother result_shown)) = []
   \<and> searchQuery (app (step ucd_excerpt ClickEnhanceAnother result_shown)) = []
   \<and> phase (app (step ucd_excerpt ClickEnhanceAnother result_shown)) = Editing
   \<and> selectedTemplate (app (step ucd_excerpt ClickEnhanceAnother result_shown)) = Some code_review"
proof -
  have v: "view (app result_shown) = ResultsView"
    by (simp add: app_result_shown view_def)
  show ?thesis
    using enhanceAnother_clears [OF reachable_result_shown v] reachable_result_shown v
    by (simp add: app_result_shown)
qed

end
